theory Spec2Isabelle
  imports Complex_Main "HOL-Library.Word"
begin

section \<open>Play records and JavaScript strings\<close>

text \<open>
  \<^verbatim>\<open>UserRecord\<close> of \<^verbatim>\<open>types.ts\<close>. The optional field \<^verbatim>\<open>ip?\<close> is an option.
  \<^verbatim>\<open>timestamp\<close> holds \<^verbatim>\<open>Date.now()\<close>, a whole number of milliseconds, and \<^verbatim>\<open>prize\<close>
  a whole amount: both are integers here, where JavaScript's doubles are exact.
\<close>

record UserRecord =
  username :: string
  agent :: string
  prize :: int
  date :: string
  timestamp :: int
  isScratched :: bool
  isClaimed :: bool
  ip :: "string option"

text \<open>
  \<^verbatim>\<open>String.prototype.toLowerCase\<close> on the ASCII letters; every other character is
  left as it is. \<^verbatim>\<open>String.prototype.trim\<close> removes the ASCII white space (tab, line
  feed, vertical tab, form feed, carriage return, space) at both ends.
\<close>

definition lowerChar :: "char \<Rightarrow> char" where
  "lowerChar c =
     (let n = (of_char c :: nat) in if 65 \<le> n \<and> n \<le> 90 then char_of (n + 32) else c)"

definition toLowerCase :: "string \<Rightarrow> string" where
  "toLowerCase s = map lowerChar s"

definition isWhiteSpace :: "char \<Rightarrow> bool" where
  "isWhiteSpace c = (let n = (of_char c :: nat) in (9 \<le> n \<and> n \<le> 13) \<or> n = 32)"

definition trim :: "string \<Rightarrow> string" where
  "trim s = rev (dropWhile isWhiteSpace (rev (dropWhile isWhiteSpace s)))"

section \<open>Local storage\<close>

text \<open>
  What \<^verbatim>\<open>localStorage.getItem\<close> finds under one key, told apart by what the reader
  does with it: nothing (\<^verbatim>\<open>null\<close>), the empty string (falsy, like \<^verbatim>\<open>null\<close>), a
  non-empty string on which \<^verbatim>\<open>JSON.parse\<close> throws a SyntaxError, or a JSON text
  together with the value \<^verbatim>\<open>JSON.parse\<close> returns for it. \<^verbatim>\<open>setItem(key,
  JSON.stringify(v))\<close> leaves \<open>Stored v\<close>.
\<close>

datatype 'a item = Missing | Blank | Malformed | Stored 'a

text \<open>A JavaScript number: \<^verbatim>\<open>NaN\<close> or a value.\<close>

datatype number = NaN | Num real

text \<open>A value that \<^verbatim>\<open>JSON.parse\<close> returns.\<close>

datatype json =
    JNull
  | JBool bool
  | JNum real
  | JStr string
  | JArr "json list"
  | JObj "(string \<times> json) list"

text \<open>
  \<^verbatim>\<open>AdminConfig\<close> of \<^verbatim>\<open>types.ts\<close>. A configuration read back from storage may
  lack a URL (\<^verbatim>\<open>undefined\<close>, here \<open>None\<close>), which is why the source tests the URLs
  for truthiness: a string is truthy when it is present and not empty.
\<close>

record AdminConfig =
  googleSheetUrl :: "string option"
  adminSheetUrl :: "string option"
  isEnabled :: bool

definition truthy :: "string option \<Rightarrow> bool" where
  "truthy s = (case s of None \<Rightarrow> False | Some v \<Rightarrow> v \<noteq> [])"

text \<open>
  The three keys of \<^verbatim>\<open>localStorage\<close> that the storage service reads. The records
  are taken at the type the source casts them to, \<^verbatim>\<open>UserRecord[]\<close>; the prize
  catalog is an arbitrary JSON value, which the source inspects.
\<close>

record storage =
  STORAGE_KEY :: "UserRecord list item"
  ADMIN_CONFIG_KEY :: "AdminConfig item"
  PRIZE_CONFIG_KEY :: "json item"

datatype error = SyntaxError | TypeError | NetworkError | NotOk | IndexSizeError

definition EIGHT_HOURS_MS :: int where
  "EIGHT_HOURS_MS = 8 * 60 * 60 * 1000"

definition DEFAULT_SHEET_URL :: string where
  "DEFAULT_SHEET_URL = ''https://script.google.com/macros/s/AKfycbza7xmY4eFHvdDIW9bNVw3grfrp0j89epTMdUwiDbj6CrQhxi0YTqGLhQ0A0u1oCVOZug/exec''"

definition DEFAULT_ADMIN_SHEET_URL :: string where
  "DEFAULT_ADMIN_SHEET_URL = DEFAULT_SHEET_URL"

subsection \<open>Game records\<close>

text \<open>
  \<^verbatim>\<open>loadAllRecords\<close>: \<^verbatim>\<open>if (!raw) return []\<close> covers \<^verbatim>\<open>null\<close> and the empty string;
  the \<^verbatim>\<open>catch\<close> turns the SyntaxError of \<^verbatim>\<open>JSON.parse\<close> into \<^verbatim>\<open>[]\<close>.
\<close>

definition loadAllRecords :: "storage \<Rightarrow> UserRecord list" where
  "loadAllRecords st =
     (case STORAGE_KEY st of
        Missing \<Rightarrow> []
      | Blank \<Rightarrow> []
      | Malformed \<Rightarrow> []
      | Stored parsed \<Rightarrow> parsed)"

definition getAllRecords :: "storage \<Rightarrow> UserRecord list" where
  "getAllRecords st = loadAllRecords st"

text \<open>
  \<^verbatim>\<open>saveRecord\<close> drops every record with the written record's lower-cased username
  and date, appends the written record and stores the list.
\<close>

definition saveRecord :: "storage \<Rightarrow> UserRecord \<Rightarrow> storage" where
  "saveRecord st record =
     (let data = loadAllRecords st;
          filtered = filter (\<lambda>r. \<not> (toLowerCase (username r) = toLowerCase (username record)
                                      \<and> date r = date record)) data
      in st\<lparr>STORAGE_KEY := Stored (filtered @ [record])\<rparr>)"

text \<open>
  \<^verbatim>\<open>getRecord\<close>. The clock is read twice in the source, by \<^verbatim>\<open>getTodayString()\<close> and
  by \<^verbatim>\<open>Date.now()\<close>: both readings are arguments here.
\<close>

definition getRecord :: "storage \<Rightarrow> int \<Rightarrow> string \<Rightarrow> string \<Rightarrow> UserRecord option" where
  "getRecord st now today user =
     (let data = loadAllRecords st;
          lowerUser = toLowerCase user
      in case find (\<lambda>r. toLowerCase (username r) = lowerUser \<and> date r = today) data of
           Some todayRecord \<Rightarrow> Some todayRecord
         | None \<Rightarrow>
             (case find (\<lambda>r. toLowerCase (username r) = lowerUser) data of
                None \<Rightarrow> None
              | Some anyRecord \<Rightarrow>
                  if now - timestamp anyRecord > EIGHT_HOURS_MS then None
                  else if date anyRecord \<noteq> today then None
                  else Some anyRecord))"

subsection \<open>Admin configuration\<close>

definition saveAdminConfig :: "storage \<Rightarrow> string \<Rightarrow> bool \<Rightarrow> storage" where
  "saveAdminConfig st url enabled =
     st\<lparr>ADMIN_CONFIG_KEY :=
          Stored \<lparr>googleSheetUrl = Some url, adminSheetUrl = Some url, isEnabled = enabled\<rparr>\<rparr>"

text \<open>
  \<^verbatim>\<open>getAdminConfig\<close> has no \<^verbatim>\<open>try\<close>: the SyntaxError of \<^verbatim>\<open>JSON.parse\<close> leaves the
  function. \<^verbatim>\<open>if (!raw)\<close> answers the default for \<^verbatim>\<open>null\<close> and for the empty string.
\<close>

definition getAdminConfig :: "storage \<Rightarrow> error + AdminConfig" where
  "getAdminConfig st =
     (case ADMIN_CONFIG_KEY st of
        Missing \<Rightarrow> Inr \<lparr>googleSheetUrl = Some DEFAULT_SHEET_URL,
                         adminSheetUrl = Some DEFAULT_ADMIN_SHEET_URL, isEnabled = True\<rparr>
      | Blank \<Rightarrow> Inr \<lparr>googleSheetUrl = Some DEFAULT_SHEET_URL,
                       adminSheetUrl = Some DEFAULT_ADMIN_SHEET_URL, isEnabled = True\<rparr>
      | Malformed \<Rightarrow> Inl SyntaxError
      | Stored parsed \<Rightarrow>
          if \<not> truthy (adminSheetUrl parsed)
          then Inr (parsed\<lparr>adminSheetUrl :=
                      (if truthy (googleSheetUrl parsed) then googleSheetUrl parsed
                       else Some DEFAULT_ADMIN_SHEET_URL)\<rparr>)
          else Inr parsed)"

subsection \<open>Prize catalog\<close>

text \<open>
  \<^verbatim>\<open>getPrizeConfig\<close>. \<^verbatim>\<open>Number\<close> is JavaScript's conversion of a parsed value to a
  number, an argument here: it answers \<^verbatim>\<open>NaN\<close> for what is not numeric and can throw
  a TypeError (an object whose \<^verbatim>\<open>toString\<close> is not a function), which the \<^verbatim>\<open>catch\<close>
  of the source turns into the default catalog.
\<close>

definition defaultPrizes :: "number list" where
  "defaultPrizes = [Num 38, Num 58, Num 88]"

definition isNaN :: "number \<Rightarrow> bool" where
  "isNaN n = (n = NaN)"

fun mapNumber :: "(json \<Rightarrow> error + number) \<Rightarrow> json list \<Rightarrow> error + number list" where
  "mapNumber Number [] = Inr []"
| "mapNumber Number (x # xs) =
     (case Number x of
        Inl e \<Rightarrow> Inl e
      | Inr n \<Rightarrow> (case mapNumber Number xs of Inl e \<Rightarrow> Inl e | Inr ns \<Rightarrow> Inr (n # ns)))"

definition isArray :: "json \<Rightarrow> bool" where
  "isArray v = (case v of JArr _ \<Rightarrow> True | _ \<Rightarrow> False)"

definition elements :: "json \<Rightarrow> json list" where
  "elements v = (case v of JArr entries \<Rightarrow> entries | _ \<Rightarrow> [])"

definition getPrizeConfig :: "(json \<Rightarrow> error + number) \<Rightarrow> storage \<Rightarrow> number list" where
  "getPrizeConfig Number st =
     (case PRIZE_CONFIG_KEY st of
        Missing \<Rightarrow> defaultPrizes
      | Blank \<Rightarrow> defaultPrizes
      | Malformed \<Rightarrow> defaultPrizes
      | Stored parsed \<Rightarrow>
          if isArray parsed then
            (case mapNumber Number (elements parsed) of
               Inl e \<Rightarrow> defaultPrizes
             | Inr ns \<Rightarrow> filter (\<lambda>n. \<not> isNaN n) ns)
          else defaultPrizes)"

section \<open>Reading the remote sheet\<close>





section \<open>The scratch card\<close>

text \<open>
  The component \<^verbatim>\<open>ScratchCard\<close>: its props \<^verbatim>\<open>width\<close> and \<^verbatim>\<open>height\<close>, the bitmap of
  its canvas (the RGBA bytes that \<^verbatim>\<open>getImageData\<close> reads, four per pixel, row by row;
  \<open>None\<close> when there is no canvas or no 2d context), the left and top of the canvas's
  bounding rectangle, the two pieces of React state, and the number of times the
  callback \<^verbatim>\<open>onReveal\<close> has been called. A state update is visible to the next event
  handler, as React renders again between two events.
\<close>

record ScratchCard =
  width :: nat
  height :: nat
  canvas :: "8 word list option"
  rectLeft :: real
  rectTop :: real
  isScratching :: bool
  revealed :: bool
  onRevealCalls :: nat

text \<open>
  The initialising effect: a card that was revealed before is cleared, any other is
  filled with the opaque cover (on which the text and the confetti are painted
  opaque, too: every alpha byte is 255, the colours are whatever was drawn).
\<close>

definition clearRect :: "8 word list \<Rightarrow> 8 word list" where
  "clearRect pixels = map (\<lambda>_. 0) pixels"

definition drawCover :: "nat \<Rightarrow> nat \<Rightarrow> (nat \<Rightarrow> 8 word) \<Rightarrow> 8 word list" where
  "drawCover w h colour = map (\<lambda>i. if i mod 4 = 3 then 255 else colour i) [0..<4 * w * h]"

definition mount ::
  "nat \<Rightarrow> nat \<Rightarrow> bool \<Rightarrow> (nat \<Rightarrow> 8 word) \<Rightarrow> real \<Rightarrow> real \<Rightarrow> ScratchCard" where
  "mount w h isRevealedInitial colour rleft rtop =
     \<lparr>width = w, height = h,
      canvas = Some (if isRevealedInitial then clearRect (drawCover w h colour)
                     else drawCover w h colour),
      rectLeft = rleft, rectTop = rtop,
      isScratching = False, revealed = isRevealedInitial, onRevealCalls = 0\<rparr>"

text \<open>
  \<^verbatim>\<open>getImageData(0, 0, width, height)\<close> throws an IndexSizeError when the width or the
  height is zero.
\<close>

definition getImageData :: "nat \<Rightarrow> nat \<Rightarrow> 8 word list \<Rightarrow> error + 8 word list" where
  "getImageData w h bitmap = (if w = 0 \<or> h = 0 then Inl IndexSizeError else Inr bitmap)"

text \<open>
  The loop of \<^verbatim>\<open>calculateRevealPercentage\<close>: \<^verbatim>\<open>i\<close> steps by four and the alpha byte
  \<^verbatim>\<open>pixels[i + 3]\<close> is compared with 128; a read past the end is \<^verbatim>\<open>undefined\<close>, which
  is not below 128.
\<close>

function transparentLoop :: "8 word list \<Rightarrow> nat \<Rightarrow> nat \<Rightarrow> nat" where
  "transparentLoop pixels i transparentPixels =
     (if i < length pixels
      then transparentLoop pixels (i + 4)
             (if i + 3 < length pixels \<and> pixels ! (i + 3) < 128
              then transparentPixels + 1 else transparentPixels)
      else transparentPixels)"
  by pat_completeness auto
termination
  by (relation "measure (\<lambda>(pixels, i, n). length pixels - i)") auto

declare transparentLoop.simps [simp del]

text \<open>
  \<^verbatim>\<open>calculateRevealPercentage\<close> answers 0 without a canvas or a context. The quotient
  is computed in exact arithmetic; the source rounds it to a double.
\<close>

definition calculateRevealPercentage :: "ScratchCard \<Rightarrow> error + real" where
  "calculateRevealPercentage sc =
     (case canvas sc of
        None \<Rightarrow> Inr 0
      | Some bitmap \<Rightarrow>
          (case getImageData (width sc) (height sc) bitmap of
             Inl e \<Rightarrow> Inl e
           | Inr pixels \<Rightarrow>
               Inr (real (transparentLoop pixels 0 0) / (real (length pixels) / 4) * 100)))"

text \<open>
  Filling with \<^verbatim>\<open>globalCompositeOperation = 'destination-out'\<close> multiplies the alpha of
  every pixel by one minus the alpha that the fill paints there; the colour bytes are
  left as they are. What the fill of the circle \<^verbatim>\<open>arc(x, y, 20, 0, 2 * PI)\<close> paints is
  the browser's rasterisation, an argument here: \<open>arc x y k\<close> is the alpha painted on
  pixel number \<open>k\<close>.
\<close>

definition fade :: "8 word \<Rightarrow> 8 word \<Rightarrow> 8 word" where
  "fade alpha painted = of_nat (unat alpha * (255 - unat painted) div 255)"

definition destinationOut :: "(nat \<Rightarrow> 8 word) \<Rightarrow> 8 word list \<Rightarrow> 8 word list" where
  "destinationOut painted pixels =
     map (\<lambda>i. if i mod 4 = 3 then fade (pixels ! i) (painted (i div 4)) else pixels ! i)
       [0..<length pixels]"

text \<open>
  A rasterisation without anti-aliasing, for a canvas \<open>w\<close> pixels wide: a pixel is
  painted opaque when its centre is within 20 of \<open>(x, y)\<close>.
\<close>

definition solidDisk :: "nat \<Rightarrow> real \<Rightarrow> real \<Rightarrow> nat \<Rightarrow> 8 word" where
  "solidDisk w x y k =
     (if (real (k mod w) + 1 / 2 - x)\<^sup>2 + (real (k div w) + 1 / 2 - y)\<^sup>2 \<le> 20\<^sup>2 then 255 else 0)"


definition handleScratch ::
  "(real \<Rightarrow> real \<Rightarrow> nat \<Rightarrow> 8 word) \<Rightarrow> ScratchCard \<Rightarrow> real \<Rightarrow> real \<Rightarrow> ScratchCard" where
  "handleScratch arc sc clientX clientY =
     (if revealed sc then sc
      else case canvas sc of
             None \<Rightarrow> sc
           | Some bitmap \<Rightarrow>
               (let x = clientX - rectLeft sc;
                    y = clientY - rectTop sc
                in sc\<lparr>canvas := Some (destinationOut (arc x y) bitmap)\<rparr>))"

definition startScratching :: "ScratchCard \<Rightarrow> ScratchCard" where
  "startScratching sc = sc\<lparr>isScratching := True\<rparr>"

text \<open>
  \<^verbatim>\<open>stopScratching\<close>. When \<^verbatim>\<open>calculateRevealPercentage\<close> throws, the handler is left
  with \<^verbatim>\<open>setIsScratching(false)\<close> done and nothing else.
\<close>

definition stopScratching :: "ScratchCard \<Rightarrow> error + ScratchCard" where
  "stopScratching sc =
     (let sc1 = sc\<lparr>isScratching := False\<rparr> in
      if \<not> revealed sc then
        (case calculateRevealPercentage sc of
           Inl e \<Rightarrow> Inl e
         | Inr percent \<Rightarrow>
             if percent > 40
             then Inr (sc1\<lparr>revealed := True,
                             canvas := map_option clearRect (canvas sc),
                             onRevealCalls := onRevealCalls sc + 1\<rparr>)
             else Inr sc1)
      else Inr sc1)"

definition onMouseMove ::
  "(real \<Rightarrow> real \<Rightarrow> nat \<Rightarrow> 8 word) \<Rightarrow> ScratchCard \<Rightarrow> real \<Rightarrow> real \<Rightarrow> ScratchCard" where
  "onMouseMove arc sc clientX clientY =
     (if \<not> isScratching sc then sc else handleScratch arc sc clientX clientY)"

definition onTouchMove ::
  "(real \<Rightarrow> real \<Rightarrow> nat \<Rightarrow> 8 word) \<Rightarrow> ScratchCard \<Rightarrow> real \<Rightarrow> real \<Rightarrow> ScratchCard" where
  "onTouchMove arc sc clientX clientY =
     (if \<not> isScratching sc then sc else handleScratch arc sc clientX clientY)"

text \<open>
  The events the canvas listens to, and the card after a sequence of them. An event
  whose handler throws leaves the state updates made before the throw.
\<close>

datatype event =
    MouseDown | MouseUp | MouseLeave | MouseMove real real
  | TouchStart | TouchEnd | TouchMove real real

definition afterStop :: "ScratchCard \<Rightarrow> ScratchCard" where
  "afterStop sc =
     (case stopScratching sc of Inl e \<Rightarrow> sc\<lparr>isScratching := False\<rparr> | Inr sc' \<Rightarrow> sc')"

fun handle :: "(real \<Rightarrow> real \<Rightarrow> nat \<Rightarrow> 8 word) \<Rightarrow> ScratchCard \<Rightarrow> event \<Rightarrow> ScratchCard" where
  "handle arc sc MouseDown = startScratching sc"
| "handle arc sc MouseUp = afterStop sc"
| "handle arc sc MouseLeave = afterStop sc"
| "handle arc sc (MouseMove clientX clientY) = onMouseMove arc sc clientX clientY"
| "handle arc sc TouchStart = startScratching sc"
| "handle arc sc TouchEnd = afterStop sc"
| "handle arc sc (TouchMove clientX clientY) = onTouchMove arc sc clientX clientY"

definition run ::
  "(real \<Rightarrow> real \<Rightarrow> nat \<Rightarrow> 8 word) \<Rightarrow> ScratchCard \<Rightarrow> event list \<Rightarrow> ScratchCard" where
  "run arc sc events = foldl (handle arc) sc events"


section \<open>Sample data\<close>

definition emptyStorage :: storage where
  "emptyStorage = \<lparr>STORAGE_KEY = Missing, ADMIN_CONFIG_KEY = Missing, PRIZE_CONFIG_KEY = Missing\<rparr>"

definition playOf :: "string \<Rightarrow> string \<Rightarrow> int \<Rightarrow> UserRecord" where
  "playOf user day time =
     \<lparr>username = user, agent = ''HG07'', prize = 58, date = day, timestamp = time,
      isScratched = False, isClaimed = False, ip = None\<rparr>"

definition smallCard :: ScratchCard where
  "smallCard = mount 2 1 False (\<lambda>i. 204) 0 0"

definition idleGesture :: "event list" where
  "idleGesture = [MouseDown, MouseUp]"

definition scratchGesture :: "event list" where
  "scratchGesture = [MouseDown, MouseMove 1 (1 / 2)]"

definition laterEvents :: "event list" where
  "laterEvents = [MouseLeave, TouchStart, TouchMove 0 (1 / 2), TouchEnd]"







section \<open>Lemmas on the local cache\<close>

lemma find_user_not_today:
  "find (\<lambda>r. toLowerCase (username r) = lowerUser \<and> date r = today) data = None \<Longrightarrow>
   find (\<lambda>r. toLowerCase (username r) = lowerUser) data = Some anyRecord \<Longrightarrow>
   date anyRecord \<noteq> today"
  by (auto simp: find_None_iff find_Some_iff)

text \<open>
  The second lookup of \<^verbatim>\<open>getRecord\<close> never answers: it runs only when no record of the
  user has today's date, and then the record it finds fails the daily reset check.
\<close>

lemma getRecord_eq_find:
  "getRecord st now today user =
     find (\<lambda>r. toLowerCase (username r) = toLowerCase user \<and> date r = today) (loadAllRecords st)"
proof (cases "find (\<lambda>r. toLowerCase (username r) = toLowerCase user \<and> date r = today)
                (loadAllRecords st)")
  case None
  show ?thesis
  proof (cases "find (\<lambda>r. toLowerCase (username r) = toLowerCase user) (loadAllRecords st)")
    case inner: None
    with None show ?thesis by (simp add: getRecord_def)
  next
    case (Some anyRecord)
    with None have "date anyRecord \<noteq> today" by (rule find_user_not_today)
    with None Some show ?thesis by (simp add: getRecord_def)
  qed
next
  case (Some todayRecord)
  then show ?thesis by (simp add: getRecord_def)
qed

lemma loadAllRecords_saveRecord:
  "loadAllRecords (saveRecord st record) =
     filter (\<lambda>r. \<not> (toLowerCase (username r) = toLowerCase (username record)
                     \<and> date r = date record)) (loadAllRecords st) @ [record]"
  by (simp add: saveRecord_def loadAllRecords_def Let_def)

lemma filter_identity_saveRecord:
  "filter (\<lambda>r. toLowerCase (username r) = toLowerCase (username record) \<and> date r = date record)
      (loadAllRecords (saveRecord st record)) = [record]"
  by (simp add: loadAllRecords_saveRecord filter_empty_conv)

lemma find_of_filter_single: "filter P xs = [x] \<Longrightarrow> find P xs = Some x"
  by (induction xs) (auto split: if_splits)

lemma mapNumber_all_NaN:
  "\<forall>x\<in>set entries. Number x = Inr NaN \<Longrightarrow>
   mapNumber Number entries = Inr (replicate (length entries) NaN)"
  by (induction entries) simp_all

section \<open>Lemmas on the scratch card\<close>













lemma handle_revealed:
  "revealed sc \<Longrightarrow>
   revealed (handle arc sc e) \<and> canvas (handle arc sc e) = canvas sc
   \<and> onRevealCalls (handle arc sc e) = onRevealCalls sc"
  by (cases e)
     (simp_all add: startScratching_def afterStop_def stopScratching_def onMouseMove_def
        onTouchMove_def handleScratch_def)

lemma stopScratching_unrevealed:
  "\<not> revealed sc \<Longrightarrow> calculateRevealPercentage sc = Inr p \<Longrightarrow>
   stopScratching sc =
     Inr (if p > 40
          then sc\<lparr>isScratching := False, revealed := True,
                  canvas := map_option clearRect (canvas sc),
                  onRevealCalls := onRevealCalls sc + 1\<rparr>
          else sc\<lparr>isScratching := False\<rparr>)"
  by (simp add: stopScratching_def)

lemma afterStop_revealed: "revealed sc \<Longrightarrow> afterStop sc = sc\<lparr>isScratching := False\<rparr>"
  by (simp add: afterStop_def stopScratching_def)

lemma afterStop_throws:
  "\<not> revealed sc \<Longrightarrow> calculateRevealPercentage sc = Inl e \<Longrightarrow>
   afterStop sc = sc\<lparr>isScratching := False\<rparr>"
  by (simp add: afterStop_def stopScratching_def)

lemma afterStop_unrevealed:
  "\<not> revealed sc \<Longrightarrow> calculateRevealPercentage sc = Inr p \<Longrightarrow>
   afterStop sc =
     (if p > 40
      then sc\<lparr>isScratching := False, revealed := True,
              canvas := map_option clearRect (canvas sc),
              onRevealCalls := onRevealCalls sc + 1\<rparr>
      else sc\<lparr>isScratching := False\<rparr>)"
  by (simp add: afterStop_def stopScratching_unrevealed)

lemma afterStop_calls:
  "onRevealCalls (afterStop sc) =
     (if revealed (afterStop sc) \<and> \<not> revealed sc then onRevealCalls sc + 1 else onRevealCalls sc)
   \<and> (revealed sc \<longrightarrow> revealed (afterStop sc))"
proof (cases "revealed sc")
  case True
  then show ?thesis by (simp add: afterStop_revealed)
next
  case False
  show ?thesis
  proof (cases "calculateRevealPercentage sc")
    case (Inl e)
    with False show ?thesis by (simp add: afterStop_throws)
  next
    case (Inr p)
    with False show ?thesis by (simp add: afterStop_unrevealed)
  qed
qed

lemma handleScratch_flags:
  "revealed (handleScratch arc sc x y) = revealed sc
   \<and> onRevealCalls (handleScratch arc sc x y) = onRevealCalls sc"
  by (cases "canvas sc") (simp_all add: handleScratch_def)

lemma handle_calls:
  "onRevealCalls (handle arc sc e) =
     (if revealed (handle arc sc e) \<and> \<not> revealed sc then onRevealCalls sc + 1 else onRevealCalls sc)
   \<and> (revealed sc \<longrightarrow> revealed (handle arc sc e))"
proof (cases e)
  case MouseUp then show ?thesis using afterStop_calls [of sc] by simp
next
  case MouseLeave then show ?thesis using afterStop_calls [of sc] by simp
next
  case TouchEnd then show ?thesis using afterStop_calls [of sc] by simp
next
  case MouseDown then show ?thesis by (simp add: startScratching_def)
next
  case TouchStart then show ?thesis by (simp add: startScratching_def)
next
  case (MouseMove x y) then show ?thesis by (simp add: onMouseMove_def handleScratch_flags)
next
  case (TouchMove x y) then show ?thesis by (simp add: onTouchMove_def handleScratch_flags)
qed

lemma run_Cons: "run arc sc (e # es) = run arc (handle arc sc e) es"
  by (simp add: run_def)

lemma run_calls:
  "onRevealCalls (run arc sc events) =
     (if revealed (run arc sc events) \<and> \<not> revealed sc then onRevealCalls sc + 1
      else onRevealCalls sc)
   \<and> (revealed sc \<longrightarrow> revealed (run arc sc events))"
proof (induction events arbitrary: sc)
  case Nil
  show ?case by (simp add: run_def)
next
  case (Cons e es)
  define sc1 where "sc1 = handle arc sc e"
  define sc2 where "sc2 = run arc sc1 es"
  have ih: "onRevealCalls sc2 =
              (if revealed sc2 \<and> \<not> revealed sc1 then onRevealCalls sc1 + 1 else onRevealCalls sc1)"
       and ih2: "revealed sc1 \<longrightarrow> revealed sc2"
    using Cons.IH [of sc1] by (simp_all add: sc2_def)
  have st: "onRevealCalls sc1 =
              (if revealed sc1 \<and> \<not> revealed sc then onRevealCalls sc + 1 else onRevealCalls sc)"
       and st2: "revealed sc \<longrightarrow> revealed sc1"
    using handle_calls [of arc sc e] by (simp_all add: sc1_def)
  have "onRevealCalls sc2 =
          (if revealed sc2 \<and> \<not> revealed sc then onRevealCalls sc + 1 else onRevealCalls sc)
        \<and> (revealed sc \<longrightarrow> revealed sc2)"
  proof (cases "revealed sc")
    case True
    with st2 ih2 have "revealed sc1" "revealed sc2" by simp_all
    with True ih st show ?thesis by simp
  next
    case False
    show ?thesis
    proof (cases "revealed sc1")
      case True
      with ih2 have "revealed sc2" by simp
      with True False ih st show ?thesis by simp
    next
      case r1: False
      with False ih st show ?thesis by simp
    qed
  qed
  then show ?case by (simp add: run_Cons sc1_def sc2_def)
qed

lemma run_revealed:
  "revealed sc \<Longrightarrow>
   revealed (run arc sc events) \<and> canvas (run arc sc events) = canvas sc
   \<and> onRevealCalls (run arc sc events) = onRevealCalls sc"
proof (induction events arbitrary: sc)
  case Nil
  then show ?case by (simp add: run_def)
next
  case (Cons e es)
  from Cons.prems have h: "revealed (handle arc sc e)" "canvas (handle arc sc e) = canvas sc"
      "onRevealCalls (handle arc sc e) = onRevealCalls sc"
    using handle_revealed [of sc arc e] by simp_all
  from Cons.IH [OF h(1)] h show ?case by (simp add: run_Cons)
qed





























section \<open>The local cache: expiry, day and identity\<close>

text \<open>
  Claim C1, as amended. The cache lookup honours a record only if its date is today:
  \<^verbatim>\<open>getRecord\<close> answers the first cached record with the user's lower-cased username
  and today's date, and nothing when there is none. The timestamp plays no part: the
  8-hour test stands in the branch that runs only when the user has no record of
  today, where the daily reset check rejects whatever passed it. A cached entry of
  today whose timestamp is more than 8 hours in the past is therefore returned.
\<close>

theorem getRecord_today_only:
  "getRecord st now today user =
     find (\<lambda>r. toLowerCase (username r) = toLowerCase user \<and> date r = today) (loadAllRecords st)"
  by (rule getRecord_eq_find)

text \<open>
  Claim C1 as stated fails: a record of today written nine hours ago is returned,
  although \<open>now - timestamp \<le> 8 hours\<close> is false for it.
\<close>

theorem getRecord_expiry_counterexample:
  "getRecord (saveRecord emptyStorage (playOf ''alice'' ''2026-02-17'' 0))
       (9 * 60 * 60 * 1000) ''2026-02-17'' ''alice''
     = Some (playOf ''alice'' ''2026-02-17'' 0)
   \<and> \<not> (9 * 60 * 60 * 1000 - timestamp (playOf ''alice'' ''2026-02-17'' 0) \<le> EIGHT_HOURS_MS)"
  by (simp add: getRecord_def saveRecord_def loadAllRecords_def emptyStorage_def playOf_def
      EIGHT_HOURS_MS_def)

text \<open>
  Claim C7. A cached record whose date is not today is never the answer of
  \<^verbatim>\<open>getRecord\<close>, whatever its timestamp and whatever the clock says.
\<close>

theorem getRecord_never_another_day:
  "r \<in> set (loadAllRecords st) \<Longrightarrow> date r \<noteq> today \<Longrightarrow> getRecord st now today user \<noteq> Some r"
  by (auto simp: getRecord_eq_find find_Some_iff)

theorem getRecord_never_another_day_witness:
  "playOf ''bob'' ''2026-02-16'' 1000
     \<in> set (loadAllRecords (saveRecord emptyStorage (playOf ''bob'' ''2026-02-16'' 1000)))
   \<and> date (playOf ''bob'' ''2026-02-16'' 1000) \<noteq> ''2026-02-17''
   \<and> getRecord (saveRecord emptyStorage (playOf ''bob'' ''2026-02-16'' 1000))
         2000 ''2026-02-17'' ''bob''
        \<noteq> Some (playOf ''bob'' ''2026-02-16'' 1000)"
proof -
  have a: "playOf ''bob'' ''2026-02-16'' 1000
             \<in> set (loadAllRecords (saveRecord emptyStorage (playOf ''bob'' ''2026-02-16'' 1000)))"
    by (simp add: loadAllRecords_saveRecord)
  have b: "date (playOf ''bob'' ''2026-02-16'' 1000) \<noteq> ''2026-02-17''"
    by (simp add: playOf_def)
  from a b getRecord_never_another_day [OF a b, of 2000 "''bob''"] show ?thesis by simp
qed

text \<open>
  Claim C4, as amended. Identity in the local cache is the lower-cased username and
  the date; nothing is trimmed. When a record is written under one spelling of a
  username, a lookup on the record's day under any spelling with the same lower-cased
  form answers that record, the cache holds no other record of that identity, and on
  any cache the two spellings look up the same record.
\<close>

theorem cache_identity_ignores_case:
  assumes "toLowerCase (username r) = toLowerCase u"
  shows "getRecord (saveRecord st r) now (date r) u = Some r
       \<and> filter (\<lambda>r'. toLowerCase (username r') = toLowerCase u \<and> date r' = date r)
           (loadAllRecords (saveRecord st r)) = [r]
       \<and> getRecord st now today u = getRecord st now today (username r)"
proof -
  have f: "filter (\<lambda>r'. toLowerCase (username r') = toLowerCase u \<and> date r' = date r)
           (loadAllRecords (saveRecord st r)) = [r]"
    using filter_identity_saveRecord [of r st] assms by simp
  then have "find (\<lambda>r'. toLowerCase (username r') = toLowerCase u \<and> date r' = date r)
           (loadAllRecords (saveRecord st r)) = Some r"
    by (rule find_of_filter_single)
  with f assms show ?thesis by (simp add: getRecord_eq_find)
qed

theorem cache_identity_ignores_case_witness:
  "toLowerCase (username (playOf ''Alice'' ''2026-02-17'' 0)) = toLowerCase ''alice''
   \<and> getRecord (saveRecord emptyStorage (playOf ''Alice'' ''2026-02-17'' 0))
         1000 ''2026-02-17'' ''alice''
       = Some (playOf ''Alice'' ''2026-02-17'' 0)"
proof -
  have a: "toLowerCase (username (playOf ''Alice'' ''2026-02-17'' 0)) = toLowerCase ''alice''"
    unfolding playOf_def by code_simp
  have d: "date (playOf ''Alice'' ''2026-02-17'' 0) = ''2026-02-17''"
    by (simp add: playOf_def)
  have "getRecord (saveRecord emptyStorage (playOf ''Alice'' ''2026-02-17'' 0)) 1000
          (date (playOf ''Alice'' ''2026-02-17'' 0)) ''alice''
        = Some (playOf ''Alice'' ''2026-02-17'' 0)"
    using cache_identity_ignores_case [OF a, of emptyStorage 1000] by (rule conjunct1)
  then have "getRecord (saveRecord emptyStorage (playOf ''Alice'' ''2026-02-17'' 0)) 1000
          ''2026-02-17'' ''alice'' = Some (playOf ''Alice'' ''2026-02-17'' 0)"
    by (simp only: d)
  with a show ?thesis by (rule conjI)
qed

text \<open>
  Claim C4 as stated fails: \<^verbatim>\<open>"alice "\<close> and \<^verbatim>\<open>"Alice"\<close> have the same trimmed,
  lower-cased form, yet a lookup of \<^verbatim>\<open>"alice "\<close> does not find the record written for
  \<^verbatim>\<open>"Alice"\<close>, and writing a record for \<^verbatim>\<open>"alice "\<close> on the same day leaves both stored.
\<close>

theorem cache_identity_trim_counterexample:
  "toLowerCase (trim ''alice '') = toLowerCase (trim ''Alice'')
   \<and> getRecord (saveRecord emptyStorage (playOf ''Alice'' ''2026-02-17'' 0))
        1000 ''2026-02-17'' ''alice '' = None
   \<and> loadAllRecords (saveRecord (saveRecord emptyStorage (playOf ''Alice'' ''2026-02-17'' 0))
        (playOf ''alice '' ''2026-02-17'' 5))
       = [playOf ''Alice'' ''2026-02-17'' 0, playOf ''alice '' ''2026-02-17'' 5]"
  by (simp add: getRecord_def saveRecord_def loadAllRecords_def emptyStorage_def playOf_def
      trim_def isWhiteSpace_def toLowerCase_def lowerChar_def char_of_def bit_Suc_0_iff)

text \<open>
  Claim C5. Whatever the cache held and whatever record is written, after
  \<^verbatim>\<open>saveRecord\<close> the stored records with the written record's lower-cased username and
  date are exactly one, the record just written.
\<close>

theorem saveRecord_one_record_per_identity:
  "filter (\<lambda>r. toLowerCase (username r) = toLowerCase (username record) \<and> date r = date record)
      (loadAllRecords (saveRecord st record)) = [record]"
  by (rule filter_identity_saveRecord)

section \<open>Reading persisted state\<close>

text \<open>
  Claim C6. Reading persisted local state never raises: neither reader has an error
  result, as \<^verbatim>\<open>JSON.parse\<close> and what is done with its result stand inside a \<^verbatim>\<open>try\<close>. When
  the records key is absent or holds a string that is not valid JSON (the empty
  string included), \<^verbatim>\<open>loadAllRecords\<close> answers the empty list; when the prize key is
  absent, holds a string that is not valid JSON, or holds JSON that is not an array,
  \<^verbatim>\<open>getPrizeConfig\<close> answers the default catalog 38, 58, 88.
\<close>

theorem local_reads_degrade:
  "(STORAGE_KEY st = Missing \<or> STORAGE_KEY st = Blank \<or> STORAGE_KEY st = Malformed
      \<longrightarrow> loadAllRecords st = [])
   \<and> (PRIZE_CONFIG_KEY st = Missing \<or> PRIZE_CONFIG_KEY st = Blank \<or> PRIZE_CONFIG_KEY st = Malformed
        \<or> (\<exists>v. PRIZE_CONFIG_KEY st = Stored v \<and> \<not> isArray v)
      \<longrightarrow> getPrizeConfig Number st = [Num 38, Num 58, Num 88])"
  by (auto simp: loadAllRecords_def getPrizeConfig_def defaultPrizes_def)

theorem local_reads_degrade_witness:
  "loadAllRecords (emptyStorage\<lparr>STORAGE_KEY := Malformed, PRIZE_CONFIG_KEY := Stored (JObj [])\<rparr>) = []
   \<and> getPrizeConfig (\<lambda>v. Inr NaN) (emptyStorage\<lparr>STORAGE_KEY := Malformed, PRIZE_CONFIG_KEY := Stored (JObj [])\<rparr>)
       = [Num 38, Num 58, Num 88]"
  using local_reads_degrade [of "emptyStorage\<lparr>STORAGE_KEY := Malformed, PRIZE_CONFIG_KEY := Stored (JObj [])\<rparr>" "\<lambda>v. Inr NaN"]
  by (simp add: emptyStorage_def isArray_def)

text \<open>
  Claim C9, as amended. When no admin configuration is stored, and also when the
  stored string is empty, \<^verbatim>\<open>getAdminConfig\<close> answers the default configuration,
  enabled and with the built-in sheet URL; when the stored string is not empty and
  not valid JSON, \<^verbatim>\<open>getAdminConfig\<close> raises the SyntaxError of its unguarded
  \<^verbatim>\<open>JSON.parse\<close>.
\<close>

theorem getAdminConfig_default_or_raise:
  "(ADMIN_CONFIG_KEY st = Missing \<or> ADMIN_CONFIG_KEY st = Blank
      \<longrightarrow> getAdminConfig st = Inr \<lparr>googleSheetUrl = Some DEFAULT_SHEET_URL,
                                  adminSheetUrl = Some DEFAULT_SHEET_URL, isEnabled = True\<rparr>)
   \<and> (ADMIN_CONFIG_KEY st = Malformed \<longrightarrow> getAdminConfig st = Inl SyntaxError)"
  by (auto simp: getAdminConfig_def DEFAULT_ADMIN_SHEET_URL_def)

theorem getAdminConfig_default_or_raise_witness:
  "getAdminConfig emptyStorage = Inr \<lparr>googleSheetUrl = Some DEFAULT_SHEET_URL,
                                  adminSheetUrl = Some DEFAULT_SHEET_URL, isEnabled = True\<rparr>
   \<and> getAdminConfig (emptyStorage\<lparr>ADMIN_CONFIG_KEY := Malformed\<rparr>) = Inl SyntaxError"
  using getAdminConfig_default_or_raise [of emptyStorage]
        getAdminConfig_default_or_raise [of "emptyStorage\<lparr>ADMIN_CONFIG_KEY := Malformed\<rparr>"]
  by (simp add: emptyStorage_def)

text \<open>
  Claim C9 as stated fails for one stored string that is not valid JSON: the empty
  string is caught by \<^verbatim>\<open>if (!raw)\<close> before \<^verbatim>\<open>JSON.parse\<close> is reached, and the default
  configuration is answered instead of an error.
\<close>

theorem getAdminConfig_blank_counterexample:
  "ADMIN_CONFIG_KEY (emptyStorage\<lparr>ADMIN_CONFIG_KEY := Blank\<rparr>) = Blank
   \<and> getAdminConfig (emptyStorage\<lparr>ADMIN_CONFIG_KEY := Blank\<rparr>)
       = Inr \<lparr>googleSheetUrl = Some DEFAULT_SHEET_URL,
              adminSheetUrl = Some DEFAULT_SHEET_URL, isEnabled = True\<rparr>"
  by (simp add: getAdminConfig_def emptyStorage_def DEFAULT_ADMIN_SHEET_URL_def)

text \<open>
  Claim C10. When the stored prize catalog is a JSON array whose every entry converts
  to \<^verbatim>\<open>NaN\<close>, \<^verbatim>\<open>getPrizeConfig\<close> answers the empty list, not the default catalog.
\<close>

theorem getPrizeConfig_all_NaN_empty:
  assumes "PRIZE_CONFIG_KEY st = Stored parsed" and "isArray parsed"
      and "\<forall>x\<in>set (elements parsed). Number x = Inr NaN"
  shows "getPrizeConfig Number st = [] \<and> getPrizeConfig Number st \<noteq> [Num 38, Num 58, Num 88]"
  using assms mapNumber_all_NaN [of "elements parsed" Number]
  by (simp add: getPrizeConfig_def isNaN_def)

theorem getPrizeConfig_all_NaN_empty_witness:
  "getPrizeConfig (\<lambda>v. case v of JNum x \<Rightarrow> Inr (Num x) | _ \<Rightarrow> Inr NaN)
      (emptyStorage\<lparr>PRIZE_CONFIG_KEY := Stored (JArr [JStr ''abc'', JObj []])\<rparr>) = []"
  using getPrizeConfig_all_NaN_empty
    [of "emptyStorage\<lparr>PRIZE_CONFIG_KEY := Stored (JArr [JStr ''abc'', JObj []])\<rparr>"
        "JArr [JStr ''abc'', JObj []]"
        "\<lambda>v. case v of JNum x \<Rightarrow> Inr (Num x) | _ \<Rightarrow> Inr NaN"]
  by (simp add: emptyStorage_def isArray_def elements_def)

section \<open>Failures of the remote read\<close>




section \<open>Coverage and reveal\<close>






text \<open>
  Claim C3. Coverage is measured at the end of a gesture only: \<^verbatim>\<open>stopScratching\<close> on a
  card that is not revealed fires (sets \<^verbatim>\<open>revealed\<close>, clears the canvas, calls
  \<^verbatim>\<open>onReveal\<close> once) exactly when the measure exceeds 40, and a scratch never changes
  \<^verbatim>\<open>revealed\<close> or calls \<^verbatim>\<open>onReveal\<close>. Once the card is revealed, a scratch is a no-op,
  every event leaves the canvas, the flag and the number of calls as they are, and the
  card stays revealed. Over any sequence of events on a mounted card, \<^verbatim>\<open>onReveal\<close> is
  called once if the card became revealed and never otherwise: at most once.
\<close>

theorem reveal_fires_once:
  "(\<not> revealed sc \<and> calculateRevealPercentage sc = Inr p \<longrightarrow>
      stopScratching sc =
        Inr (if p > 40
             then sc\<lparr>isScratching := False, revealed := True,
                     canvas := map_option clearRect (canvas sc),
                     onRevealCalls := onRevealCalls sc + 1\<rparr>
             else sc\<lparr>isScratching := False\<rparr>))
   \<and> revealed (handleScratch arc sc x y) = revealed sc
   \<and> onRevealCalls (handleScratch arc sc x y) = onRevealCalls sc
   \<and> (revealed sc \<longrightarrow>
         handleScratch arc sc x y = sc
         \<and> revealed (handle arc sc e)
         \<and> canvas (handle arc sc e) = canvas sc
         \<and> onRevealCalls (handle arc sc e) = onRevealCalls sc
         \<and> revealed (run arc sc events)
         \<and> canvas (run arc sc events) = canvas sc
         \<and> onRevealCalls (run arc sc events) = onRevealCalls sc)
   \<and> onRevealCalls (run arc (mount w h init colour rleft rtop) events)
       = (if revealed (run arc (mount w h init colour rleft rtop) events) \<and> \<not> init then 1 else 0)
   \<and> onRevealCalls (run arc (mount w h init colour rleft rtop) events) \<le> 1"
proof -
  have a: "\<not> revealed sc \<and> calculateRevealPercentage sc = Inr p \<longrightarrow>
      stopScratching sc =
        Inr (if p > 40
             then sc\<lparr>isScratching := False, revealed := True,
                     canvas := map_option clearRect (canvas sc),
                     onRevealCalls := onRevealCalls sc + 1\<rparr>
             else sc\<lparr>isScratching := False\<rparr>)"
    using stopScratching_unrevealed [of sc p] by blast
  have b: "revealed (handleScratch arc sc x y) = revealed sc
         \<and> onRevealCalls (handleScratch arc sc x y) = onRevealCalls sc"
    by (rule handleScratch_flags)
  have c: "revealed sc \<longrightarrow>
         handleScratch arc sc x y = sc
         \<and> revealed (handle arc sc e)
         \<and> canvas (handle arc sc e) = canvas sc
         \<and> onRevealCalls (handle arc sc e) = onRevealCalls sc
         \<and> revealed (run arc sc events)
         \<and> canvas (run arc sc events) = canvas sc
         \<and> onRevealCalls (run arc sc events) = onRevealCalls sc"
    using handle_revealed [of sc arc e] run_revealed [of sc arc events]
    by (simp add: handleScratch_def)
  have m: "revealed (mount w h init colour rleft rtop) = init"
          "onRevealCalls (mount w h init colour rleft rtop) = 0"
    by (simp_all add: mount_def)
  have d: "onRevealCalls (run arc (mount w h init colour rleft rtop) events)
       = (if revealed (run arc (mount w h init colour rleft rtop) events) \<and> \<not> init then 1 else 0)"
    using run_calls [of arc "mount w h init colour rleft rtop" events] m
    by (cases init) simp_all
  then have e: "onRevealCalls (run arc (mount w h init colour rleft rtop) events) \<le> 1"
    by simp
  from a b c d e show ?thesis by blast
qed

theorem reveal_fires_once_witness:
  "\<not> revealed (run (solidDisk 2) smallCard [MouseDown])
   \<and> calculateRevealPercentage (run (solidDisk 2) smallCard [MouseDown]) = Inr 0
   \<and> stopScratching (run (solidDisk 2) smallCard [MouseDown]) = Inr smallCard
   \<and> \<not> revealed (run (solidDisk 2) smallCard (idleGesture @ scratchGesture))
   \<and> calculateRevealPercentage (run (solidDisk 2) smallCard (idleGesture @ scratchGesture)) = Inr 100
   \<and> revealed (run (solidDisk 2) smallCard (idleGesture @ scratchGesture @ [MouseUp]))
   \<and> onRevealCalls (run (solidDisk 2) smallCard
         (idleGesture @ scratchGesture @ [MouseUp] @ laterEvents)) = 1"
proof -
  let ?A = "solidDisk 2"
  have u1: "\<not> revealed (run ?A smallCard [MouseDown])" by code_simp
  have p1: "calculateRevealPercentage (run ?A smallCard [MouseDown]) = Inr 0" by code_simp
  have s1: "stopScratching (run ?A smallCard [MouseDown]) = Inr smallCard"
    using reveal_fires_once [of "run ?A smallCard [MouseDown]" 0] u1 p1
    apply simp by code_simp
  have u2: "\<not> revealed (run ?A smallCard (idleGesture @ scratchGesture))" by code_simp
  have p2: "calculateRevealPercentage (run ?A smallCard (idleGesture @ scratchGesture)) = Inr 100"
    by code_simp
  have r3: "revealed (run ?A smallCard (idleGesture @ scratchGesture @ [MouseUp]))"
    by code_simp
  have r4: "revealed (run ?A (mount 2 1 False (\<lambda>i. 204) 0 0)
         (idleGesture @ scratchGesture @ [MouseUp] @ laterEvents))"
    by code_simp
  have "onRevealCalls (run ?A (mount 2 1 False (\<lambda>i. 204) 0 0)
         (idleGesture @ scratchGesture @ [MouseUp] @ laterEvents)) = 1"
    using reveal_fires_once [where arc = ?A and w = 2 and h = 1 and init = False
            and colour = "\<lambda>i. 204" and rleft = 0 and rtop = 0
            and events = "idleGesture @ scratchGesture @ [MouseUp] @ laterEvents"] r4
    by simp
  then have c4: "onRevealCalls (run ?A smallCard
         (idleGesture @ scratchGesture @ [MouseUp] @ laterEvents)) = 1"
    by (simp only: smallCard_def)
  from u1 p1 s1 u2 p2 r3 c4 show ?thesis by blast
qed

end
